theory Spec2Isabelle
  imports Main "HOL-Library.AList" "HOL-Library.Sublist"
begin

section \<open>The OLLM provider factory (src/ollm-provider.ts)\<close>

text \<open>
  The provider factory \<open>createOLLM\<close> closes over a resolved base URL and the settings it
  was given, and exposes accessors that build model handles or reject the request.
  Exceptions are values of \<open>sdk_error\<close>; a function that may throw returns
  \<open>sdk_error + 'a\<close> with \<open>Inl\<close> for the thrown error. A JavaScript object with string
  properties (\<open>Record<string, string>\<close>) is an association list in insertion order;
  \<open>process.env\<close> is a map that the header builder takes as an argument each time it
  is invoked.
\<close>

subsection \<open>Data model\<close>

type_synonym header_record = "(string \<times> string) list"

type_synonym process_env = "string \<rightharpoonup> string"

datatype sdk_error =
    NoSuchModelError (err_modelId: string) (err_modelType: string)
  | MissingCredential

text \<open>The zod schema \<open>ollmErrorSchema\<close>, as the tree of combinators the source builds.\<close>

datatype zod = ZString | ZOptional zod | ZNullable zod | ZObject "(string \<times> zod) list"

text \<open>
  \<open>OLLMErrorData\<close>, the type the schema infers: an optional field is \<open>option\<close>, an
  optional nullable field is \<open>option option\<close>.
\<close>

record OLLMErrorBody =
  message :: string
  err_type :: "string option"
  param :: "string option option"
  code :: "string option option"

record OLLMErrorData =
  error :: OLLMErrorBody

record ProviderErrorStructure =
  errorSchema :: zod
  errorToMessage :: "OLLMErrorData \<Rightarrow> string"

text \<open>\<open>OLLMProviderSettings\<close>; every field is optional. \<open>'f\<close> is \<open>FetchFunction\<close>.\<close>

record 'f OLLMProviderSettings =
  apiKey :: "string option"
  baseURL :: "string option"
  headers :: "header_record option"
  fetch :: "'f option"

text \<open>
  \<open>CommonModelConfig\<close>, the interface declared inside \<open>createOLLM\<close>. The \<open>headers\<close>
  field holds the closure itself, not a result of calling it; the closure reads
  \<open>process.env\<close> when it is invoked. \<open>ModelConfig\<close> is the object both model
  constructors receive: the common configuration and the \<open>errorStructure\<close>.
\<close>

record 'f CommonModelConfig =
  provider :: string
  url :: "string \<Rightarrow> string"
  cfg_headers :: "process_env \<Rightarrow> sdk_error + header_record"
  cfg_fetch :: "'f option"

record 'f ModelConfig = "'f CommonModelConfig" +
  errorStructure :: ProviderErrorStructure

datatype model_class =
  OpenAICompatibleChatLanguageModel | OpenAICompatibleCompletionLanguageModel

text \<open>
  A model handle is what \<open>new OpenAICompatible...LanguageModel(modelId, config)\<close> is
  given: the class, the identifier and the configuration. The classes live in
  \<open>@ai-sdk/openai-compatible\<close>; the repository's tests read \<open>model.modelId\<close> and
  \<open>model.provider\<close> (the configuration's \<open>provider\<close>) off the handle.
\<close>

record 'f ModelHandle =
  modelClass :: model_class
  modelId :: string
  config :: "'f ModelConfig"

text \<open>
  The provider returned by \<open>createOLLM\<close>: its \<open>specificationVersion\<close> property and
  the two values its closures capture, the resolved \<open>baseURL\<close> and \<open>options\<close>.
\<close>

record 'f OLLMProvider =
  specificationVersion :: string
  closure_baseURL :: string
  closure_options :: "'f OLLMProviderSettings"

subsection \<open>Constants of the module\<close>

definition VERSION :: string where
  \<comment> \<open>dist/index.mjs: \<open>var VERSION = true ? "1.0.0" : "0.0.0-test"\<close>\<close>
  "VERSION = ''1.0.0''"

definition defaultBaseURL :: string where
  "defaultBaseURL = ''http://localhost:4000/v1''"

definition ollmErrorSchema :: zod where
  "ollmErrorSchema =
     ZObject [(''error'', ZObject
       [(''message'', ZString),
        (''type'', ZOptional ZString),
        (''param'', ZOptional (ZNullable ZString)),
        (''code'', ZOptional (ZNullable ZString))])]"

definition ollmErrorStructure :: ProviderErrorStructure where
  "ollmErrorStructure =
     \<lparr>errorSchema = ollmErrorSchema, errorToMessage = (\<lambda>data. message (error data))\<rparr>"

subsection \<open>Helpers imported from @ai-sdk/provider-utils\<close>

text \<open>
  Modelled from the spec: \<open>withoutTrailingSlash\<close> is imported from
  \<open>@ai-sdk/provider-utils\<close>, which is not among the sources. The spec: the base URL is
  "stripped of any single trailing slash", "trailing slash stripped exactly once".
\<close>

definition endsWithSlash :: "string \<Rightarrow> bool" where
  "endsWithSlash s = (case rev s of [] \<Rightarrow> False | c # _ \<Rightarrow> c = CHR ''/'')"

definition withoutTrailingSlash :: "string \<Rightarrow> string" where
  "withoutTrailingSlash u = (if endsWithSlash u then butlast u else u)"

text \<open>
  Modelled from the spec: \<open>loadApiKey\<close> is imported from \<open>@ai-sdk/provider-utils\<close>,
  which is not among the sources. The spec: it "resolves an API key by precedence
  {explicit \<open>settings.apiKey\<close> if provided; else a named environment variable}; fails
  with a \<open>MissingCredential\<close> error at invocation time if neither is present". The
  arguments are the three fields the source passes, and the environment.
\<close>

definition loadApiKey ::
  "string option \<Rightarrow> string \<Rightarrow> string \<Rightarrow> process_env \<Rightarrow> sdk_error + string" where
  "loadApiKey key environmentVariableName description env =
     (case key of
        Some k \<Rightarrow> Inr k
      | None \<Rightarrow>
          (case env environmentVariableName of
             Some k \<Rightarrow> Inr k
           | None \<Rightarrow> Inl MissingCredential))"

text \<open>
  Modelled from the spec: \<open>withUserAgentSuffix\<close> is imported from
  \<open>@ai-sdk/provider-utils\<close>, which is not among the sources. The spec: it "appends a
  fixed client-identification suffix to a \<open>User-Agent\<close>-class header, preserving any
  existing value". A header is of the \<open>User-Agent\<close> class when its name is
  \<open>user-agent\<close> up to letter case; the suffix follows the existing value after one
  space; without such a header one named \<open>User-Agent\<close> is added. Every other header
  passes through unchanged.
\<close>

definition toLowerCase_char :: "char \<Rightarrow> char" where
  "toLowerCase_char c =
     (case map_of (zip ''ABCDEFGHIJKLMNOPQRSTUVWXYZ'' ''abcdefghijklmnopqrstuvwxyz'') c of
        Some l \<Rightarrow> l
      | None \<Rightarrow> c)"

definition isUserAgentName :: "string \<Rightarrow> bool" where
  "isUserAgentName n = (map toLowerCase_char n = ''user-agent'')"

definition appendUserAgent :: "string \<Rightarrow> string \<times> string \<Rightarrow> string \<times> string" where
  "appendUserAgent sfx h =
     (if isUserAgentName (fst h) then (fst h, snd h @ '' '' @ sfx) else h)"

definition withUserAgentSuffix :: "header_record \<Rightarrow> string \<Rightarrow> header_record" where
  "withUserAgentSuffix hs sfx =
     (if list_ex (\<lambda>h. isUserAgentName (fst h)) hs
      then map (appendUserAgent sfx) hs
      else hs @ [(''User-Agent'', sfx)])"

subsection \<open>Object literals\<close>

text \<open>
  \<open>{ ...obj, ...src }\<close>: the properties of \<open>src\<close> are assigned to a copy of \<open>obj\<close> in
  order; an assignment to a name that is already there replaces its value in place, a new
  name goes to the end. An optional object that is \<open>undefined\<close> has no properties to
  spread.
\<close>

definition objectSpread :: "header_record \<Rightarrow> header_record \<Rightarrow> header_record" where
  "objectSpread obj src = fold (\<lambda>h acc. AList.update (fst h) (snd h) acc) src obj"

definition ownProperties :: "header_record option \<Rightarrow> header_record" where
  "ownProperties src = (case src of None \<Rightarrow> [] | Some hs \<Rightarrow> hs)"

subsection \<open>createOLLM and the closures it builds\<close>

text \<open>
  \<open>getHeaders\<close>: the API key is loaded first (and may throw), then the caller's
  headers are spread over the \<open>Authorization\<close> property, then the suffix is added.
\<close>

definition getHeaders ::
  "'f OLLMProviderSettings \<Rightarrow> process_env \<Rightarrow> sdk_error + header_record" where
  "getHeaders options env =
     (case loadApiKey (apiKey options) ''OLLM_API_KEY'' ''OLLM API key'' env of
        Inl e \<Rightarrow> Inl e
      | Inr key \<Rightarrow>
          Inr (withUserAgentSuffix
                 (objectSpread [(''Authorization'', ''Bearer '' @ key)]
                    (ownProperties (headers options)))
                 (''ai-sdk/ollm/'' @ VERSION)))"

definition createOLLM :: "'f OLLMProviderSettings \<Rightarrow> 'f OLLMProvider" where
  "createOLLM options =
     \<lparr>specificationVersion = ''v3'',
      closure_baseURL =
        withoutTrailingSlash (case baseURL options of Some u \<Rightarrow> u | None \<Rightarrow> defaultBaseURL),
      closure_options = options\<rparr>"

definition getCommonModelConfig :: "'f OLLMProvider \<Rightarrow> string \<Rightarrow> 'f CommonModelConfig" where
  "getCommonModelConfig p modelType =
     \<lparr>provider = ''ollm.'' @ modelType,
      url = (\<lambda>path. closure_baseURL p @ path),
      cfg_headers = getHeaders (closure_options p),
      cfg_fetch = fetch (closure_options p)\<rparr>"

text \<open>\<open>{ ...common, errorStructure: e }\<close>\<close>

definition withErrorStructure ::
  "'f CommonModelConfig \<Rightarrow> ProviderErrorStructure \<Rightarrow> 'f ModelConfig" where
  "withErrorStructure common e =
     \<lparr>provider = provider common,
      url = url common,
      cfg_headers = cfg_headers common,
      cfg_fetch = cfg_fetch common,
      errorStructure = e\<rparr>"

definition createChatModel :: "'f OLLMProvider \<Rightarrow> string \<Rightarrow> sdk_error + 'f ModelHandle" where
  "createChatModel p mid =
     Inr \<lparr>modelClass = OpenAICompatibleChatLanguageModel,
          modelId = mid,
          config = withErrorStructure (getCommonModelConfig p ''chat'') ollmErrorStructure\<rparr>"

definition createCompletionModel ::
  "'f OLLMProvider \<Rightarrow> string \<Rightarrow> sdk_error + 'f ModelHandle" where
  "createCompletionModel p mid =
     Inr \<lparr>modelClass = OpenAICompatibleCompletionLanguageModel,
          modelId = mid,
          config = withErrorStructure (getCommonModelConfig p ''completion'') ollmErrorStructure\<rparr>"

definition createEmbeddingModel :: "'f OLLMProvider \<Rightarrow> string \<Rightarrow> sdk_error + 'm" where
  "createEmbeddingModel p mid = Inl (NoSuchModelError mid ''embeddingModel'')"

text \<open>The provider as a function, and its properties, in the order the source assigns them.\<close>

definition providerCall :: "'f OLLMProvider \<Rightarrow> string \<Rightarrow> sdk_error + 'f ModelHandle" where
  "providerCall p mid = createChatModel p mid"

definition completionModel :: "'f OLLMProvider \<Rightarrow> string \<Rightarrow> sdk_error + 'f ModelHandle" where
  "completionModel = createCompletionModel"

definition chatModel :: "'f OLLMProvider \<Rightarrow> string \<Rightarrow> sdk_error + 'f ModelHandle" where
  "chatModel = createChatModel"

definition languageModel :: "'f OLLMProvider \<Rightarrow> string \<Rightarrow> sdk_error + 'f ModelHandle" where
  "languageModel = createChatModel"

definition embeddingModel :: "'f OLLMProvider \<Rightarrow> string \<Rightarrow> sdk_error + 'm" where
  "embeddingModel = createEmbeddingModel"

definition textEmbeddingModel :: "'f OLLMProvider \<Rightarrow> string \<Rightarrow> sdk_error + 'm" where
  "textEmbeddingModel = createEmbeddingModel"

definition imageModel :: "'f OLLMProvider \<Rightarrow> string \<Rightarrow> sdk_error + 'm" where
  "imageModel p mid = Inl (NoSuchModelError mid ''imageModel'')"

text \<open>The default instance, \<open>createOLLM()\<close>: the settings default to \<open>{}\<close>.\<close>

definition ollm :: "'f OLLMProvider" where
  "ollm = createOLLM \<lparr>apiKey = None, baseURL = None, headers = None, fetch = None\<rparr>"

section \<open>Properties of object spread and of the imported helpers\<close>

subsection \<open>Header objects\<close>

lemma isUserAgentName_User_Agent: "isUserAgentName ''User-Agent''"
  by (simp add: isUserAgentName_def toLowerCase_char_def)

lemma map_of_objectSpread: "map_of (objectSpread obj src) = map_of obj ++ map_of (rev src)"
  unfolding objectSpread_def
  by (induction src arbitrary: obj) (auto simp: update_conv' map_add_def fun_eq_iff split: option.splits)

lemma map_of_rev_distinct: "distinct (map fst xs) \<Longrightarrow> map_of (rev xs) = map_of xs"
  by (rule map_of_inject_set[THEN iffD2]) (auto simp: rev_map[symmetric])

lemma map_of_headers_object:
  "distinct (map fst src) \<Longrightarrow>
   map_of (objectSpread [(''Authorization'', b)] src) n =
     (case map_of src n of
        Some v \<Rightarrow> Some v
      | None \<Rightarrow> if n = ''Authorization'' then Some b else None)"
  by (simp add: map_of_objectSpread map_of_rev_distinct map_add_def split: option.splits)

lemma map_of_appendUserAgent:
  "map_of (map (appendUserAgent sfx) hs) n =
     (if isUserAgentName n then map_option (\<lambda>v. v @ '' '' @ sfx) (map_of hs n) else map_of hs n)"
  by (induction hs) (auto simp: appendUserAgent_def)

lemma map_of_withUserAgentSuffix_existing:
  assumes "isUserAgentName n" and "map_of hs n = Some v"
  shows "map_of (withUserAgentSuffix hs sfx) n = Some (v @ '' '' @ sfx)"
proof -
  from assms(2) have "(n, v) \<in> set hs" by (rule map_of_SomeD)
  with assms(1) have "list_ex (\<lambda>h. isUserAgentName (fst h)) hs"
    by (force simp: list_ex_iff)
  then show ?thesis
    using assms by (simp add: withUserAgentSuffix_def map_of_appendUserAgent)
qed

lemma fst_appendUserAgent: "fst (appendUserAgent sfx h) = fst h"
  by (simp add: appendUserAgent_def)

lemma withUserAgentSuffix_present:
  "list_ex (\<lambda>h. isUserAgentName (fst h)) (withUserAgentSuffix hs sfx)"
proof (cases "list_ex (\<lambda>h. isUserAgentName (fst h)) hs")
  case True
  then have "list_ex (\<lambda>h. isUserAgentName (fst h)) (map (appendUserAgent sfx) hs)"
    by (simp add: list_ex_iff fst_appendUserAgent)
  with True show ?thesis by (simp add: withUserAgentSuffix_def)
next
  case False
  then show ?thesis
    using isUserAgentName_User_Agent by (simp add: withUserAgentSuffix_def list_ex_iff)
qed

lemma withUserAgentSuffix_suffix:
  "h \<in> set (withUserAgentSuffix hs sfx) \<Longrightarrow> isUserAgentName (fst h) \<Longrightarrow> suffix sfx (snd h)"
  by (auto simp: withUserAgentSuffix_def list_ex_iff appendUserAgent_def suffix_def split: if_splits)

lemma loadApiKey_env_only:
  "env ''OLLM_API_KEY'' = env' ''OLLM_API_KEY'' \<Longrightarrow>
   loadApiKey k ''OLLM_API_KEY'' d env = loadApiKey k ''OLLM_API_KEY'' d env'"
  by (simp add: loadApiKey_def split: option.splits)

lemma getHeaders_Inr:
  "loadApiKey (apiKey options) ''OLLM_API_KEY'' ''OLLM API key'' env = Inr key \<Longrightarrow>
   getHeaders options env =
     Inr (withUserAgentSuffix
            (objectSpread [(''Authorization'', ''Bearer '' @ key)]
               (ownProperties (headers options)))
            (''ai-sdk/ollm/'' @ VERSION))"
  by (simp add: getHeaders_def)

lemma getHeaders_env_only:
  "env ''OLLM_API_KEY'' = env' ''OLLM_API_KEY'' \<Longrightarrow>
   getHeaders options env = getHeaders options env'"
  by (simp add: getHeaders_def loadApiKey_env_only [of env env'])

lemma getHeaders_explicit_key:
  "apiKey options = Some a \<Longrightarrow>
   getHeaders options env =
     Inr (withUserAgentSuffix
            (objectSpread [(''Authorization'', ''Bearer '' @ a)]
               (ownProperties (headers options)))
            (''ai-sdk/ollm/'' @ VERSION))"
  by (simp add: getHeaders_def loadApiKey_def)

lemma getHeaders_env_key:
  "apiKey options = None \<Longrightarrow> env ''OLLM_API_KEY'' = Some k \<Longrightarrow>
   getHeaders options env =
     Inr (withUserAgentSuffix
            (objectSpread [(''Authorization'', ''Bearer '' @ k)]
               (ownProperties (headers options)))
            (''ai-sdk/ollm/'' @ VERSION))"
  by (simp add: getHeaders_def loadApiKey_def)

subsection \<open>Trailing slashes\<close>

lemma endsWithSlash_snoc: "endsWithSlash (u @ [c]) = (c = CHR ''/'')"
  by (simp add: endsWithSlash_def)

lemma withoutTrailingSlash_snoc: "withoutTrailingSlash (u @ ''/'') = u"
  by (simp add: withoutTrailingSlash_def endsWithSlash_snoc)

lemma withoutTrailingSlash_id: "\<not> endsWithSlash u \<Longrightarrow> withoutTrailingSlash u = u"
  by (simp add: withoutTrailingSlash_def)

lemma withoutTrailingSlash_defaultBaseURL: "withoutTrailingSlash defaultBaseURL = defaultBaseURL"
  by (simp add: withoutTrailingSlash_def endsWithSlash_def defaultBaseURL_def)

lemma endsWithSlash_withoutTrailingSlash:
  "endsWithSlash (withoutTrailingSlash u) = (\<exists>v. u = v @ ''//'')"
proof (cases u rule: rev_cases)
  case Nil
  then show ?thesis by (simp add: withoutTrailingSlash_def endsWithSlash_def)
next
  case (snoc v c)
  show ?thesis
  proof (cases "c = CHR ''/''")
    case True
    with snoc have "withoutTrailingSlash u = v"
      using withoutTrailingSlash_snoc [of v] by simp
    moreover have "endsWithSlash v = (\<exists>w. v = w @ ''/'')"
      by (cases v rule: rev_cases) (auto simp: endsWithSlash_def)
    ultimately show ?thesis using snoc True by auto
  next
    case False
    with snoc show ?thesis
      by (auto simp: withoutTrailingSlash_def endsWithSlash_snoc)
  qed
qed

subsection \<open>Model constructors\<close>

lemma createChatModel_handle:
  "createChatModel p mid =
     Inr \<lparr>modelClass = OpenAICompatibleChatLanguageModel, modelId = mid,
          config = withErrorStructure (getCommonModelConfig p ''chat'') ollmErrorStructure\<rparr>"
  by (simp add: createChatModel_def)

lemma createCompletionModel_handle:
  "createCompletionModel p mid =
     Inr \<lparr>modelClass = OpenAICompatibleCompletionLanguageModel, modelId = mid,
          config = withErrorStructure (getCommonModelConfig p ''completion'') ollmErrorStructure\<rparr>"
  by (simp add: createCompletionModel_def)

section \<open>The Authorization header and the caller's headers\<close>

text \<open>
  C1, as stated: when the caller's headers contain an \<open>Authorization\<close> key, the built
  mapping still has \<open>Authorization\<close> equal to \<open>Bearer <key>\<close>. The source spreads
  \<open>options.headers\<close> after the \<open>Authorization\<close> property, so the caller's entry
  replaces it: with the key \<open>k\<close> and the caller's header \<open>Authorization: Basic x\<close> the
  result carries \<open>Basic x\<close>.
\<close>

theorem getHeaders_authorization_counterexample:
  "loadApiKey (Some ''k'') ''OLLM_API_KEY'' ''OLLM API key'' Map.empty = Inr ''k''
   \<and> getHeaders
        \<lparr>apiKey = Some ''k'', baseURL = None,
         headers = Some [(''Authorization'', ''Basic x'')], fetch = (None :: unit option)\<rparr>
        Map.empty
      = Inr [(''Authorization'', ''Basic x''), (''User-Agent'', ''ai-sdk/ollm/1.0.0'')]
   \<and> map_of [(''Authorization'', ''Basic x''), (''User-Agent'', ''ai-sdk/ollm/1.0.0'')]
        ''Authorization'' \<noteq> Some ''Bearer k''"
  by (simp add: getHeaders_def loadApiKey_def withUserAgentSuffix_def ownProperties_def
      objectSpread_def VERSION_def isUserAgentName_def toLowerCase_char_def)

text \<open>
  C1, amended: for every settings object whose headers contain an \<open>Authorization\<close> key,
  and every resolvable API key, the header builder returns \<open>withUserAgentSuffix\<close>
  applied to the object \<open>{ Authorization: 'Bearer <key>', ...options.headers }\<close>, and
  in that object \<open>Authorization\<close> has the caller's value: the caller's entry replaces
  the Bearer value.
\<close>

theorem getHeaders_authorization:
  assumes key: "loadApiKey (apiKey options) ''OLLM_API_KEY'' ''OLLM API key'' env = Inr key"
    and obj: "distinct (map fst (ownProperties (headers options)))"
    and caller: "map_of (ownProperties (headers options)) ''Authorization'' = Some v"
  shows "getHeaders options env =
       Inr (withUserAgentSuffix
              (objectSpread [(''Authorization'', ''Bearer '' @ key)]
                 (ownProperties (headers options)))
              (''ai-sdk/ollm/'' @ VERSION))
     \<and> map_of (objectSpread [(''Authorization'', ''Bearer '' @ key)]
                 (ownProperties (headers options))) ''Authorization'' = Some v"
proof
  show "getHeaders options env =
       Inr (withUserAgentSuffix
              (objectSpread [(''Authorization'', ''Bearer '' @ key)]
                 (ownProperties (headers options)))
              (''ai-sdk/ollm/'' @ VERSION))"
    using key by (rule getHeaders_Inr)
next
  show "map_of (objectSpread [(''Authorization'', ''Bearer '' @ key)]
                 (ownProperties (headers options))) ''Authorization'' = Some v"
    using obj caller by (simp add: map_of_headers_object)
qed

theorem getHeaders_authorization_witness:
  "getHeaders
     \<lparr>apiKey = None, baseURL = None,
      headers = Some [(''Authorization'', ''Basic x''), (''X-Custom-Header'', ''custom-value'')],
      fetch = (None :: unit option)\<rparr>
     [''OLLM_API_KEY'' \<mapsto> ''test-api-key'']
   = Inr (withUserAgentSuffix
            (objectSpread [(''Authorization'', ''Bearer test-api-key'')]
               [(''Authorization'', ''Basic x''), (''X-Custom-Header'', ''custom-value'')])
            ''ai-sdk/ollm/1.0.0'')
   \<and> map_of (objectSpread [(''Authorization'', ''Bearer test-api-key'')]
               [(''Authorization'', ''Basic x''), (''X-Custom-Header'', ''custom-value'')])
        ''Authorization'' = Some ''Basic x''"
proof -
  let ?options = "\<lparr>apiKey = None, baseURL = None,
      headers = Some [(''Authorization'', ''Basic x''), (''X-Custom-Header'', ''custom-value'')],
      fetch = (None :: unit option)\<rparr>"
  let ?env = "[''OLLM_API_KEY'' \<mapsto> ''test-api-key'']"
  have key: "loadApiKey (apiKey ?options) ''OLLM_API_KEY'' ''OLLM API key'' ?env
      = Inr ''test-api-key''"
    by (simp add: loadApiKey_def)
  have obj: "distinct (map fst (ownProperties (headers ?options)))"
    by (simp add: ownProperties_def)
  have caller: "map_of (ownProperties (headers ?options)) ''Authorization'' = Some ''Basic x''"
    by (simp add: ownProperties_def)
  from getHeaders_authorization [OF key obj caller] show ?thesis
    by (simp add: ownProperties_def VERSION_def)
qed

section \<open>Unsupported model types\<close>

text \<open>
  C2. For every identifier \<open>mid\<close> and every provider, \<open>embeddingModel\<close> and
  \<open>textEmbeddingModel\<close> throw \<open>NoSuchModelError\<close> with \<open>modelId = mid\<close> and
  \<open>modelType = "embeddingModel"\<close>, and \<open>imageModel\<close> throws it with
  \<open>modelType = "imageModel"\<close>; the result is never a model object.
\<close>

theorem unsupported_models_throw:
  "embeddingModel p mid = Inl (NoSuchModelError mid ''embeddingModel'')
   \<and> textEmbeddingModel p mid = Inl (NoSuchModelError mid ''embeddingModel'')
   \<and> imageModel p mid = Inl (NoSuchModelError mid ''imageModel'')
   \<and> err_modelId (NoSuchModelError mid ''embeddingModel'') = mid
   \<and> err_modelType (NoSuchModelError mid ''embeddingModel'') = ''embeddingModel''
   \<and> err_modelType (NoSuchModelError mid ''imageModel'') = ''imageModel''"
  by (simp add: embeddingModel_def textEmbeddingModel_def createEmbeddingModel_def
      imageModel_def)

section \<open>Deferred credential resolution\<close>

text \<open>
  C3. With no \<open>apiKey\<close> in the settings and \<open>OLLM_API_KEY\<close> unset, \<open>createOLLM\<close>
  returns a provider and \<open>chatModel\<close> returns a handle for every identifier; the
  missing credential shows only when the handle's header closure is invoked, which
  then fails with \<open>MissingCredential\<close>. Neither constructor takes the environment.
\<close>

theorem construction_never_needs_credentials:
  assumes "apiKey options = None" and "env ''OLLM_API_KEY'' = None"
  shows "specificationVersion (createOLLM options) = ''v3''
     \<and> (\<exists>h. chatModel (createOLLM options) mid = Inr h
            \<and> cfg_headers (config h) env = Inl MissingCredential)"
  using assms
  by (simp add: chatModel_def createChatModel_def getCommonModelConfig_def withErrorStructure_def createOLLM_def
      getHeaders_def loadApiKey_def)

theorem construction_never_needs_credentials_witness:
  "specificationVersion
     (createOLLM \<lparr>apiKey = None, baseURL = None, headers = None,
                  fetch = (None :: unit option)\<rparr>) = ''v3''
   \<and> (\<exists>h. chatModel
             (createOLLM \<lparr>apiKey = None, baseURL = None, headers = None,
                          fetch = (None :: unit option)\<rparr>) ''test'' = Inr h
          \<and> cfg_headers (config h) Map.empty = Inl MissingCredential)"
  using construction_never_needs_credentials
    [of "\<lparr>apiKey = None, baseURL = None, headers = None, fetch = (None :: unit option)\<rparr>"
        Map.empty "''test''"]
  by simp

section \<open>The resolved base URL\<close>

text \<open>
  C4. The effective base URL is \<open>settings.baseURL\<close> with one trailing \<open>/\<close> removed,
  exactly once, when \<open>baseURL\<close> is present (a URL without a trailing slash is kept as it
  is), and the default endpoint \<open>http://localhost:4000/v1\<close> when it is absent.
\<close>

theorem resolved_baseURL:
  "(\<forall>u. baseURL options = Some (u @ ''/'') \<longrightarrow> closure_baseURL (createOLLM options) = u)
   \<and> (\<forall>u. baseURL options = Some u \<and> \<not> endsWithSlash u
          \<longrightarrow> closure_baseURL (createOLLM options) = u)
   \<and> (baseURL options = None
          \<longrightarrow> closure_baseURL (createOLLM options) = ''http://localhost:4000/v1'')"
  using withoutTrailingSlash_defaultBaseURL
  by (auto simp: createOLLM_def withoutTrailingSlash_snoc withoutTrailingSlash_id
      defaultBaseURL_def)

theorem resolved_baseURL_witness:
  "closure_baseURL
     (createOLLM \<lparr>apiKey = None, baseURL = Some ''https://x/v1/'', headers = None,
                  fetch = (None :: unit option)\<rparr>) = ''https://x/v1''
   \<and> closure_baseURL
     (createOLLM \<lparr>apiKey = None, baseURL = Some ''https://x/v1'', headers = None,
                  fetch = (None :: unit option)\<rparr>) = ''https://x/v1''
   \<and> closure_baseURL
     (createOLLM \<lparr>apiKey = None, baseURL = None, headers = None,
                  fetch = (None :: unit option)\<rparr>) = ''http://localhost:4000/v1''"
  using resolved_baseURL
    [of "\<lparr>apiKey = None, baseURL = Some ''https://x/v1/'', headers = None,
          fetch = (None :: unit option)\<rparr>"]
    resolved_baseURL
    [of "\<lparr>apiKey = None, baseURL = Some ''https://x/v1'', headers = None,
          fetch = (None :: unit option)\<rparr>"]
    resolved_baseURL
    [of "\<lparr>apiKey = None, baseURL = None, headers = None, fetch = (None :: unit option)\<rparr>"]
  by (simp add: endsWithSlash_def)

text \<open>
  C5, as stated: the stored base URL never ends with a slash, whatever the settings. One
  slash is removed, so a \<open>baseURL\<close> ending in two slashes is stored with one.
\<close>

theorem stored_baseURL_trailing_slash_counterexample:
  "closure_baseURL
     (createOLLM \<lparr>apiKey = None, baseURL = Some ''https://x/v1//'', headers = None,
                  fetch = (None :: unit option)\<rparr>) = ''https://x/v1/''
   \<and> endsWithSlash ''https://x/v1/''"
  by (simp add: createOLLM_def withoutTrailingSlash_def endsWithSlash_def)

text \<open>
  C5, amended: the stored base URL ends with a slash exactly when \<open>settings.baseURL\<close>
  ends with two or more slashes; for the default endpoint and for every \<open>baseURL\<close>
  ending in at most one slash it has no trailing slash.
\<close>

theorem stored_baseURL_trailing_slash:
  "endsWithSlash (closure_baseURL (createOLLM options))
     = (\<exists>v. baseURL options = Some (v @ ''//''))"
  by (cases "baseURL options")
    (auto simp: createOLLM_def endsWithSlash_withoutTrailingSlash defaultBaseURL_def)

section \<open>Model handles\<close>

text \<open>
  C6. For every identifier and every provider built by \<open>createOLLM\<close>, calling the
  provider itself, \<open>chatModel\<close> and \<open>languageModel\<close> return the same handle, with
  \<open>modelId\<close> the identifier and provider tag \<open>ollm.chat\<close>.
\<close>

theorem chat_accessors_equivalent:
  "providerCall (createOLLM options) mid = chatModel (createOLLM options) mid
   \<and> languageModel (createOLLM options) mid = chatModel (createOLLM options) mid
   \<and> (\<exists>h. chatModel (createOLLM options) mid = Inr h
          \<and> modelId h = mid \<and> provider (config h) = ''ollm.chat'')"
  by (simp add: providerCall_def languageModel_def chatModel_def createChatModel_handle
      getCommonModelConfig_def withErrorStructure_def)

text \<open>
  C7. \<open>chatModel\<close> builds a chat model tagged \<open>ollm.chat\<close> and \<open>completionModel\<close> a
  completion model tagged \<open>ollm.completion\<close>; in both the URL builder maps a path to
  the resolved base URL followed by the path, and the configuration carries the shared
  header closure, the \<open>fetch\<close> override of the settings, and the error structure whose
  message projection is \<open>error.message\<close>.
\<close>

theorem model_handle_configuration:
  "\<exists>hc hk.
      chatModel (createOLLM options) mid = Inr hc
    \<and> completionModel (createOLLM options) mid = Inr hk
    \<and> modelClass hc = OpenAICompatibleChatLanguageModel
    \<and> modelClass hk = OpenAICompatibleCompletionLanguageModel
    \<and> provider (config hc) = ''ollm.chat''
    \<and> provider (config hk) = ''ollm.completion''
    \<and> (\<forall>path. url (config hc) path = closure_baseURL (createOLLM options) @ path)
    \<and> (\<forall>path. url (config hk) path = closure_baseURL (createOLLM options) @ path)
    \<and> cfg_headers (config hc) = getHeaders options
    \<and> cfg_headers (config hk) = getHeaders options
    \<and> cfg_fetch (config hc) = fetch options
    \<and> cfg_fetch (config hk) = fetch options
    \<and> errorStructure (config hc) = ollmErrorStructure
    \<and> errorStructure (config hk) = ollmErrorStructure
    \<and> (\<forall>data. errorToMessage (errorStructure (config hc)) data = message (error data))
    \<and> (\<forall>data. errorToMessage (errorStructure (config hk)) data = message (error data))"
  by (simp add: chatModel_def completionModel_def createChatModel_handle
      createCompletionModel_handle getCommonModelConfig_def withErrorStructure_def ollmErrorStructure_def
      createOLLM_def)

section \<open>The User-Agent suffix\<close>

text \<open>
  C8. Every invocation of the header builder that resolves a key returns a mapping with a
  \<open>User-Agent\<close>-class header, each such header ends with \<open>ai-sdk/ollm/<VERSION>\<close>,
  and a \<open>User-Agent\<close> value supplied by the caller is kept, with the suffix appended
  after it.
\<close>

theorem user_agent_suffix:
  assumes key: "loadApiKey (apiKey options) ''OLLM_API_KEY'' ''OLLM API key'' env = Inr key"
    and obj: "distinct (map fst (ownProperties (headers options)))"
  shows "\<exists>hs. getHeaders options env = Inr hs
     \<and> list_ex (\<lambda>h. isUserAgentName (fst h)) hs
     \<and> (\<forall>h \<in> set hs. isUserAgentName (fst h) \<longrightarrow> suffix (''ai-sdk/ollm/'' @ VERSION) (snd h))
     \<and> (\<forall>n v. isUserAgentName n \<and> map_of (ownProperties (headers options)) n = Some v
            \<longrightarrow> map_of hs n = Some (v @ '' '' @ ''ai-sdk/ollm/'' @ VERSION))"
proof -
  let ?caller = "ownProperties (headers options)"
  let ?obj = "objectSpread [(''Authorization'', ''Bearer '' @ key)] ?caller"
  let ?sfx = "''ai-sdk/ollm/'' @ VERSION"
  let ?hs = "withUserAgentSuffix ?obj ?sfx"
  have res: "getHeaders options env = Inr ?hs"
    using key by (rule getHeaders_Inr)
  have present: "list_ex (\<lambda>h. isUserAgentName (fst h)) ?hs"
    by (rule withUserAgentSuffix_present)
  have ends: "\<forall>h \<in> set ?hs. isUserAgentName (fst h) \<longrightarrow> suffix ?sfx (snd h)"
    using withUserAgentSuffix_suffix by blast
  have kept: "map_of ?hs n = Some (v @ '' '' @ ?sfx)"
    if "isUserAgentName n" and "map_of ?caller n = Some v" for n v
  proof -
    from that obj have "map_of ?obj n = Some v"
      by (simp add: map_of_headers_object)
    with that(1) show ?thesis
      by (rule map_of_withUserAgentSuffix_existing)
  qed
  from res present ends kept show ?thesis by blast
qed

theorem user_agent_suffix_witness:
  "VERSION = ''1.0.0''
   \<and> (\<exists>hs. getHeaders
          \<lparr>apiKey = Some ''my-api-key'', baseURL = None,
           headers = Some [(''User-Agent'', ''my-app/2.1'')],
           fetch = (None :: unit option)\<rparr> Map.empty = Inr hs
     \<and> list_ex (\<lambda>h. isUserAgentName (fst h)) hs
     \<and> map_of hs ''User-Agent'' = Some ''my-app/2.1 ai-sdk/ollm/1.0.0'')"
proof -
  let ?options = "\<lparr>apiKey = Some ''my-api-key'', baseURL = None,
      headers = Some [(''User-Agent'', ''my-app/2.1'')], fetch = (None :: unit option)\<rparr>"
  have key: "loadApiKey (apiKey ?options) ''OLLM_API_KEY'' ''OLLM API key'' Map.empty
      = Inr ''my-api-key''"
    by (simp add: loadApiKey_def)
  have obj: "distinct (map fst (ownProperties (headers ?options)))"
    by (simp add: ownProperties_def)
  have ua: "isUserAgentName ''User-Agent''
      \<and> map_of (ownProperties (headers ?options)) ''User-Agent'' = Some ''my-app/2.1''"
    by (simp add: ownProperties_def isUserAgentName_User_Agent)
  from user_agent_suffix [OF key obj] obtain hs where
    res: "getHeaders ?options Map.empty = Inr hs"
    and present: "list_ex (\<lambda>h. isUserAgentName (fst h)) hs"
    and kept: "\<forall>n v. isUserAgentName n \<and> map_of (ownProperties (headers ?options)) n = Some v
        \<longrightarrow> map_of hs n = Some (v @ '' '' @ ''ai-sdk/ollm/'' @ VERSION)"
    by blast
  from kept ua have "map_of hs ''User-Agent'' = Some (''my-app/2.1'' @ '' '' @ ''ai-sdk/ollm/'' @ VERSION)"
    by blast
  then have "map_of hs ''User-Agent'' = Some ''my-app/2.1 ai-sdk/ollm/1.0.0''"
    by (simp add: VERSION_def)
  with res present show ?thesis by (auto simp: VERSION_def)
qed

section \<open>The header builder is invoked anew each time\<close>

text \<open>
  C9, as stated: a change to \<open>OLLM_API_KEY\<close> between two invocations is reflected in
  the second result, whatever the settings. With an explicit \<open>apiKey\<close> the variable is
  never consulted: the invocations before and after the change return the same mapping.
\<close>

theorem header_builder_reinvoked_counterexample:
  "[''OLLM_API_KEY'' \<mapsto> ''old''] ''OLLM_API_KEY'' \<noteq> [''OLLM_API_KEY'' \<mapsto> ''new''] ''OLLM_API_KEY''
   \<and> getHeaders
        \<lparr>apiKey = Some ''k'', baseURL = None, headers = None, fetch = (None :: unit option)\<rparr>
        [''OLLM_API_KEY'' \<mapsto> ''new'']
      = getHeaders
        \<lparr>apiKey = Some ''k'', baseURL = None, headers = None, fetch = (None :: unit option)\<rparr>
        [''OLLM_API_KEY'' \<mapsto> ''old'']
   \<and> getHeaders
        \<lparr>apiKey = Some ''k'', baseURL = None, headers = None, fetch = (None :: unit option)\<rparr>
        [''OLLM_API_KEY'' \<mapsto> ''new'']
      \<noteq> Inl MissingCredential"
  by (simp add: getHeaders_def loadApiKey_def)

text \<open>
  C9, amended: the header builder is a function of the captured settings and of the value
  of \<open>OLLM_API_KEY\<close> at the time of the call, and of nothing else: two invocations under
  environments that agree on that variable return equal results. The handles hold the
  builder itself, not a mapping built earlier. When the settings carry no \<open>apiKey\<close>, an
  invocation made when the variable holds \<open>k'\<close> returns \<open>withUserAgentSuffix\<close> applied
  to the object \<open>{ Authorization: 'Bearer k'', ...options.headers }\<close>, whose
  \<open>Authorization\<close> is \<open>Bearer k'\<close> unless the caller's headers have an
  \<open>Authorization\<close> key of their own. When the settings carry an \<open>apiKey\<close>, the
  variable is not consulted and a change to it leaves the result as it was.
\<close>

theorem header_builder_reinvoked:
  "(env ''OLLM_API_KEY'' = env' ''OLLM_API_KEY''
      \<longrightarrow> getHeaders options env = getHeaders options env')
   \<and> (\<exists>hc hk. chatModel (createOLLM options) mid = Inr hc
          \<and> completionModel (createOLLM options) mid = Inr hk
          \<and> cfg_headers (config hc) = getHeaders options
          \<and> cfg_headers (config hk) = getHeaders options)
   \<and> (apiKey options = None \<and> env' ''OLLM_API_KEY'' = Some k'
      \<longrightarrow> getHeaders options env' =
            Inr (withUserAgentSuffix
                   (objectSpread [(''Authorization'', ''Bearer '' @ k')]
                      (ownProperties (headers options)))
                   (''ai-sdk/ollm/'' @ VERSION)))
   \<and> (distinct (map fst (ownProperties (headers options)))
        \<and> map_of (ownProperties (headers options)) ''Authorization'' = None
      \<longrightarrow> map_of (objectSpread [(''Authorization'', ''Bearer '' @ k')]
                     (ownProperties (headers options))) ''Authorization''
            = Some (''Bearer '' @ k'))
   \<and> (apiKey options \<noteq> None \<longrightarrow> getHeaders options env = getHeaders options env')"
proof (intro conjI impI)
  assume "env ''OLLM_API_KEY'' = env' ''OLLM_API_KEY''"
  then show "getHeaders options env = getHeaders options env'"
    by (rule getHeaders_env_only)
next
  show "\<exists>hc hk. chatModel (createOLLM options) mid = Inr hc
          \<and> completionModel (createOLLM options) mid = Inr hk
          \<and> cfg_headers (config hc) = getHeaders options
          \<and> cfg_headers (config hk) = getHeaders options"
    by (simp add: chatModel_def completionModel_def createChatModel_handle
        createCompletionModel_handle getCommonModelConfig_def withErrorStructure_def
        createOLLM_def)
next
  assume "apiKey options = None \<and> env' ''OLLM_API_KEY'' = Some k'"
  then show "getHeaders options env' =
            Inr (withUserAgentSuffix
                   (objectSpread [(''Authorization'', ''Bearer '' @ k')]
                      (ownProperties (headers options)))
                   (''ai-sdk/ollm/'' @ VERSION))"
    by (simp add: getHeaders_env_key)
next
  assume "distinct (map fst (ownProperties (headers options)))
        \<and> map_of (ownProperties (headers options)) ''Authorization'' = None"
  then show "map_of (objectSpread [(''Authorization'', ''Bearer '' @ k')]
                     (ownProperties (headers options))) ''Authorization''
            = Some (''Bearer '' @ k')"
    by (simp add: map_of_headers_object)
next
  assume "apiKey options \<noteq> None"
  then obtain a where "apiKey options = Some a" by blast
  then show "getHeaders options env = getHeaders options env'"
    by (simp add: getHeaders_explicit_key)
qed

theorem header_builder_reinvoked_witness:
  "getHeaders \<lparr>apiKey = None, baseURL = None, headers = None, fetch = (None :: unit option)\<rparr>
     [''OLLM_API_KEY'' \<mapsto> ''old'', ''HOME'' \<mapsto> ''/root'']
   = getHeaders \<lparr>apiKey = None, baseURL = None, headers = None, fetch = (None :: unit option)\<rparr>
     [''OLLM_API_KEY'' \<mapsto> ''old'']
   \<and> getHeaders \<lparr>apiKey = None, baseURL = None, headers = None, fetch = (None :: unit option)\<rparr>
       [''OLLM_API_KEY'' \<mapsto> ''new'']
     = Inr (withUserAgentSuffix
              (objectSpread [(''Authorization'', ''Bearer new'')] []) ''ai-sdk/ollm/1.0.0'')
   \<and> map_of (objectSpread [(''Authorization'', ''Bearer new'')] []) ''Authorization''
     = Some ''Bearer new''
   \<and> getHeaders \<lparr>apiKey = Some ''k'', baseURL = None, headers = None, fetch = (None :: unit option)\<rparr>
       [''OLLM_API_KEY'' \<mapsto> ''old'']
     = getHeaders \<lparr>apiKey = Some ''k'', baseURL = None, headers = None, fetch = (None :: unit option)\<rparr>
       [''OLLM_API_KEY'' \<mapsto> ''new'']"
proof -
  let ?none = "\<lparr>apiKey = None, baseURL = None, headers = None, fetch = (None :: unit option)\<rparr>"
  let ?some = "\<lparr>apiKey = Some ''k'', baseURL = None, headers = None, fetch = (None :: unit option)\<rparr>"
  from header_builder_reinvoked
    [of "[''OLLM_API_KEY'' \<mapsto> ''old'', ''HOME'' \<mapsto> ''/root'']" "[''OLLM_API_KEY'' \<mapsto> ''old'']"
        ?none _ "''old''"]
  have same: "getHeaders ?none [''OLLM_API_KEY'' \<mapsto> ''old'', ''HOME'' \<mapsto> ''/root'']
      = getHeaders ?none [''OLLM_API_KEY'' \<mapsto> ''old'']"
    by simp
  from header_builder_reinvoked
    [of "[''OLLM_API_KEY'' \<mapsto> ''old'']" "[''OLLM_API_KEY'' \<mapsto> ''new'']" ?none _ "''new''"]
  have new: "getHeaders ?none [''OLLM_API_KEY'' \<mapsto> ''new'']
      = Inr (withUserAgentSuffix
               (objectSpread [(''Authorization'', ''Bearer new'')] []) ''ai-sdk/ollm/1.0.0'')
    \<and> map_of (objectSpread [(''Authorization'', ''Bearer new'')] []) ''Authorization''
      = Some ''Bearer new''"
    by (simp add: ownProperties_def VERSION_def)
  from header_builder_reinvoked
    [of "[''OLLM_API_KEY'' \<mapsto> ''old'']" "[''OLLM_API_KEY'' \<mapsto> ''new'']" ?some]
  have explicit: "getHeaders ?some [''OLLM_API_KEY'' \<mapsto> ''old'']
      = getHeaders ?some [''OLLM_API_KEY'' \<mapsto> ''new'']"
    by simp
  from same new explicit show ?thesis by simp
qed

section \<open>Model identifiers\<close>

text \<open>
  C10. For every identifier string, the handles returned by \<open>chatModel\<close> and by
  \<open>completionModel\<close> carry \<open>modelId\<close> equal to the argument, unchanged.
\<close>

theorem modelId_unmodified:
  "(\<exists>h. chatModel p mid = Inr h \<and> modelId h = mid)
   \<and> (\<exists>h. completionModel p mid = Inr h \<and> modelId h = mid)"
  by (simp add: chatModel_def completionModel_def createChatModel_handle
      createCompletionModel_handle)

end
